theory Spec2Isabelle
  imports Complex_Main "HOL-Library.Sublist"
begin

section \<open>The Meteora liquidity rebalancer (class MeteoraRebalancer)\<close>

text \<open>
  A shallow embedding of the class \<^verbatim>\<open>MeteoraRebalancer\<close>. The class talks to a wallet, to the
  Meteora pool, to the Jupiter swap service, to an HTTP endpoint, to a balance logger and to an
  alert sink. These collaborators are parameters of the model (a record of functions over an
  arbitrary world \<open>'w\<close>); every call the class makes on one of them is appended to a trace, so
  that theorems can speak about which calls were made and in which order. A wait is an event
  of the trace as well. What the class prints on the console is not modelled.
\<close>

subsection \<open>JavaScript numbers\<close>

text \<open>
  A \<^verbatim>\<open>number\<close> is a finite value, \<^verbatim>\<open>Infinity\<close>, \<^verbatim>\<open>-Infinity\<close> or \<^verbatim>\<open>NaN\<close>. Finite values are
  rationals and finite arithmetic is exact: the rounding of IEEE doubles, overflow to infinity
  and the sign of zero are not modelled (a zero divisor counts as \<open>+0\<close>). The special values
  are kept because they decide what the code does on a zero price or a zero bin step.
\<close>

datatype num = Fin rat | PInf | NInf | NaN

fun jneg :: "num \<Rightarrow> num" where
  "jneg (Fin a) = Fin (- a)"
| "jneg PInf = NInf"
| "jneg NInf = PInf"
| "jneg NaN = NaN"

fun jadd :: "num \<Rightarrow> num \<Rightarrow> num" where
  "jadd NaN _ = NaN"
| "jadd _ NaN = NaN"
| "jadd (Fin a) (Fin b) = Fin (a + b)"
| "jadd PInf NInf = NaN"
| "jadd NInf PInf = NaN"
| "jadd PInf _ = PInf"
| "jadd NInf _ = NInf"
| "jadd (Fin a) b = b"

definition jsub :: "num \<Rightarrow> num \<Rightarrow> num" where
  "jsub a b = jadd a (jneg b)"

text \<open>The sign of a number that is not \<^verbatim>\<open>NaN\<close>: \<open>-1\<close>, \<open>0\<close> or \<open>1\<close>.\<close>

fun jsign :: "num \<Rightarrow> int" where
  "jsign (Fin a) = (if a < 0 then - 1 else if a = 0 then 0 else 1)"
| "jsign PInf = 1"
| "jsign NInf = - 1"
| "jsign NaN = 0"

definition signed_inf :: "int \<Rightarrow> num" where
  "signed_inf sg = (if sg < 0 then NInf else PInf)"

fun jmul :: "num \<Rightarrow> num \<Rightarrow> num" where
  "jmul NaN _ = NaN"
| "jmul _ NaN = NaN"
| "jmul (Fin a) (Fin b) = Fin (a * b)"
| "jmul a b = (if jsign a * jsign b = 0 then NaN else signed_inf (jsign a * jsign b))"

fun jdiv :: "num \<Rightarrow> num \<Rightarrow> num" where
  "jdiv NaN _ = NaN"
| "jdiv _ NaN = NaN"
| "jdiv (Fin a) (Fin b) =
     (if b \<noteq> 0 then Fin (a / b) else if a = 0 then NaN else signed_inf (jsign (Fin a)))"
| "jdiv (Fin a) _ = Fin 0"
| "jdiv a (Fin b) = signed_inf (jsign a * (if b < 0 then - 1 else 1))"
| "jdiv _ _ = NaN"

text \<open>Comparisons: every comparison with \<^verbatim>\<open>NaN\<close> is false.\<close>

fun jlt :: "num \<Rightarrow> num \<Rightarrow> bool" where
  "jlt NaN _ = False"
| "jlt _ NaN = False"
| "jlt (Fin a) (Fin b) = (a < b)"
| "jlt NInf NInf = False"
| "jlt NInf _ = True"
| "jlt _ NInf = False"
| "jlt PInf _ = False"
| "jlt _ PInf = True"

definition jgt :: "num \<Rightarrow> num \<Rightarrow> bool" where
  "jgt a b = jlt b a"

text \<open>\<^verbatim>\<open>Math.max\<close>, \<^verbatim>\<open>Math.min\<close> (\<^verbatim>\<open>NaN\<close> when an argument is) and \<^verbatim>\<open>Math.ceil\<close>.\<close>

definition Math_max :: "num \<Rightarrow> num \<Rightarrow> num" where
  "Math_max a b = (if a = NaN \<or> b = NaN then NaN else if jlt a b then b else a)"

definition Math_min :: "num \<Rightarrow> num \<Rightarrow> num" where
  "Math_min a b = (if a = NaN \<or> b = NaN then NaN else if jlt b a then b else a)"

fun Math_ceil :: "num \<Rightarrow> num" where
  "Math_ceil (Fin a) = Fin (of_int \<lceil>a\<rceil>)"
| "Math_ceil a = a"

subsection \<open>Strings and thrown values\<close>

text \<open>\<^verbatim>\<open>s.includes(sub)\<close>: \<open>sub\<close> occurs in \<open>s\<close> as a contiguous run of characters.\<close>

fun str_includes :: "string \<Rightarrow> string \<Rightarrow> bool" where
  "str_includes [] sub = (sub = [])"
| "str_includes (c # cs) sub = (prefix sub (c # cs) \<or> str_includes cs sub)"

text \<open>\<^verbatim>\<open>s.toLowerCase()\<close> on ASCII letters; other characters are left as they are.\<close>

definition lower_char :: "char \<Rightarrow> char" where
  "lower_char c =
     (let n = (of_char c :: int) in if 65 \<le> n \<and> n \<le> 90 then char_of (n + 32) else c)"

definition toLowerCase :: "string \<Rightarrow> string" where
  "toLowerCase s = map lower_char s"

text \<open>
  A thrown value is an \<^verbatim>\<open>Error\<close> object with its message, or some other value, kept as the
  text \<^verbatim>\<open>String(value)\<close> gives.
\<close>

datatype exn = Error string | NonError string

fun exn_text :: "exn \<Rightarrow> string" where
  "exn_text (Error m) = m"
| "exn_text (NonError v) = v"

text \<open>\<^verbatim>\<open>error instanceof Error && error.message.includes('insufficient funds')\<close>\<close>

fun insufficientFunds :: "exn \<Rightarrow> bool" where
  "insufficientFunds (Error m) = str_includes m ''insufficient funds''"
| "insufficientFunds (NonError _) = False"

text \<open>\<^verbatim>\<open>error instanceof Error && error.message.includes('No positions found in this pool')\<close>\<close>

fun noPositionsFound :: "exn \<Rightarrow> bool" where
  "noPositionsFound (Error m) = str_includes m ''No positions found in this pool''"
| "noPositionsFound (NonError _) = False"

subsection \<open>Data of the pool, the ledger and the HTTP endpoint\<close>

text \<open>The type \<^verbatim>\<open>PoolDetails\<close>.\<close>

record pool_details =
  binStep :: num
  assetAMintAddress :: string
  assetBMintAddress :: string
  assetASymbol :: string
  assetBSymbol :: string

text \<open>
  What the class reads of a position (\<^verbatim>\<open>position.positionData\<close>) and of the active bin
  (\<^verbatim>\<open>BinLiquidity\<close>). Bin ids are the pool's integer bin indices; \<open>pricePerToken\<close> holds
  \<^verbatim>\<open>Number(activeBin.pricePerToken)\<close>.
\<close>

record position_data =
  lowerBinId :: int
  upperBinId :: int

record bin_liquidity =
  binId :: int
  pricePerToken :: num

text \<open>
  The answer of \<^verbatim>\<open>fetch\<close>: \<^verbatim>\<open>response.ok\<close>, \<^verbatim>\<open>response.status\<close> and what
  \<^verbatim>\<open>await response.json()\<close> gives (it may throw), with the fields the class reads.
\<close>

record pair_json =
  name :: string
  bin_step :: num
  mint_x :: string
  mint_y :: string

record http_response =
  ok :: bool
  status :: nat
  json :: "exn + pair_json"

subsection \<open>Calls on collaborators and the trace\<close>

datatype call =
    GetBalance "string option"
  | GetActiveBin string
  | GetPositionsFromPool string
  | AddLiquidity string num num "num option"
  | RemoveLiquidity string
  | Swap string string num
  | Fetch string

text \<open>
  Modelled from the spec: \<^verbatim>\<open>src/utils/alerts.ts\<close> (\<^verbatim>\<open>sendAlert\<close>, \<^verbatim>\<open>AlertType\<close>) is not among the
  sources. The alert sink accepts a severity tag, one of
  \<^verbatim>\<open>INFO|WARNING|ERROR|LOSS|PERFORMANCE_REPORT\<close>, and a message, and a delivery failure never
  raises into the caller.
\<close>

datatype alert_type = INFO | WARNING | ERROR | LOSS | PERFORMANCE_REPORT

text \<open>
  The text of an alert. A template that prints a number keeps the number, since the printing of
  numbers is not modelled.
\<close>

datatype alert_message =
    Message string
  | RangeIntervalClipped num
  | InsufficientNativeBalance num num

text \<open>
  The three methods of \<^verbatim>\<open>BalanceLogger\<close> the class calls. The class never awaits them, so
  they cannot fail into it. \<^verbatim>\<open>logAction\<close> takes a text built from a template; the model keeps
  the template and the values printed into it (\<^verbatim>\<open>toFixed(6)\<close> is not modelled).
\<close>

datatype action_text =
    Swapped num string num string
  | DetectedOutOfRange int int int
  | Withdrew string num string num string

datatype log_record =
    LogBalances num num string string string
  | LogCurrentPrice num string string
  | LogAction action_text

datatype event =
    Invoked call
  | Logged log_record
  | Alerted alert_type alert_message
  | Slept int

subsection \<open>The object, its collaborators and its configuration\<close>

text \<open>
  The mutable fields of the object, with the world of the collaborators and the trace.
  \<open>poolDetails_field\<close> is \<^verbatim>\<open>_poolDetails\<close>.
\<close>

record 'w rebalancer =
  world :: 'w
  trace :: "event list"
  poolDetails_field :: "pool_details option"
  currLowerBinId :: int
  currUpperBinId :: int
  meteoraRangeInterval :: "num option"

text \<open>
  What the object is built with and never changes: the collaborators (\<^verbatim>\<open>wallet\<close>,
  \<^verbatim>\<open>meteora\<close>, \<^verbatim>\<open>jupiter\<close>, \<^verbatim>\<open>fetch\<close>), the pool address, and the numbers read from the
  environment: \<^verbatim>\<open>Number(process.env.METEORA_POSITION_RANGE_PER_SIDE_RELATIVE)\<close>,
  \<^verbatim>\<open>NATIVE_TOKEN_FEE_BUFFER\<close> and \<^verbatim>\<open>NATIVE_TOKEN_MIN_BALANCE\<close>.
\<close>

record 'w deps =
  wallet_getBalance :: "string option \<Rightarrow> 'w \<Rightarrow> (exn + num) \<times> 'w"
  meteora_getActiveBin :: "string \<Rightarrow> 'w \<Rightarrow> (exn + bin_liquidity option) \<times> 'w"
  meteora_getPositionsFromPool :: "string \<Rightarrow> 'w \<Rightarrow> (exn + position_data list) \<times> 'w"
  meteora_addLiquidity :: "string \<Rightarrow> num \<Rightarrow> num \<Rightarrow> num option \<Rightarrow> 'w \<Rightarrow> (exn + unit) \<times> 'w"
  meteora_removeLiquidity :: "string \<Rightarrow> 'w \<Rightarrow> (exn + (num \<times> num) \<times> (num \<times> num)) \<times> 'w"
  jupiter_swap :: "string \<Rightarrow> string \<Rightarrow> num \<Rightarrow> 'w \<Rightarrow> (exn + num) \<times> 'w"
  fetch_pair :: "string \<Rightarrow> 'w \<Rightarrow> (exn + http_response) \<times> 'w"
  poolAddress :: string
  POSITION_RANGE_PER_SIDE_RELATIVE :: num
  NATIVE_TOKEN_FEE_BUFFER :: num
  NATIVE_TOKEN_MIN_BALANCE :: num

definition METERORA_MAX_BINS_PER_SIDE :: num where
  "METERORA_MAX_BINS_PER_SIDE = Fin 34"

text \<open>The defaults of the two constants read from the environment.\<close>

definition default_NATIVE_TOKEN_FEE_BUFFER :: num where
  "default_NATIVE_TOKEN_FEE_BUFFER = Fin (1 / 10)"

definition default_NATIVE_TOKEN_MIN_BALANCE :: num where
  "default_NATIVE_TOKEN_MIN_BALANCE = Fin (1 / 100)"

subsection \<open>Asynchronous methods as state transformers with exceptions\<close>

text \<open>
  An \<^verbatim>\<open>async\<close> method, awaited, takes the object to a thrown value or a result, and a new
  object. The class awaits every promise it depends on, so the steps of a method run in
  sequence.
\<close>

type_synonym ('w, 'a) io = "'w rebalancer \<Rightarrow> (exn + 'a) \<times> 'w rebalancer"

definition ret :: "'a \<Rightarrow> ('w, 'a) io" where
  "ret x s = (Inr x, s)"

definition throw :: "exn \<Rightarrow> ('w, 'a) io" where
  "throw e s = (Inl e, s)"

definition bnd :: "('w, 'a) io \<Rightarrow> ('a \<Rightarrow> ('w, 'b) io) \<Rightarrow> ('w, 'b) io" where
  "bnd m f s = (case m s of (Inl e, s') \<Rightarrow> (Inl e, s') | (Inr x, s') \<Rightarrow> f x s')"

definition seq :: "('w, 'a) io \<Rightarrow> ('w, 'b) io \<Rightarrow> ('w, 'b) io" where
  "seq m n = bnd m (\<lambda>_. n)"

definition try_catch :: "('w, 'a) io \<Rightarrow> (exn \<Rightarrow> ('w, 'a) io) \<Rightarrow> ('w, 'a) io" where
  "try_catch m handler s = (case m s of (Inl e, s') \<Rightarrow> handler e s' | (Inr x, s') \<Rightarrow> (Inr x, s'))"

definition modify :: "('w rebalancer \<Rightarrow> 'w rebalancer) \<Rightarrow> ('w, unit) io" where
  "modify f s = (Inr (), f s)"

definition record_event :: "event \<Rightarrow> 'w rebalancer \<Rightarrow> 'w rebalancer" where
  "record_event e s = s\<lparr>trace := trace s @ [e]\<rparr>"

definition emit :: "event \<Rightarrow> ('w, unit) io" where
  "emit e = modify (record_event e)"

text \<open>A call on a collaborator: it is recorded, and it changes the world only.\<close>

definition invoke :: "call \<Rightarrow> ('w \<Rightarrow> (exn + 'a) \<times> 'w) \<Rightarrow> ('w, 'a) io" where
  "invoke c operation s =
     (case operation (world s) of (r, w') \<Rightarrow> (r, record_event (Invoked c) (s\<lparr>world := w'\<rparr>)))"

text \<open>\<^verbatim>\<open>await new Promise((resolve) => setTimeout(resolve, delayMs))\<close>\<close>

definition sleep :: "int \<Rightarrow> 'w rebalancer \<Rightarrow> 'w rebalancer" where
  "sleep delayMs = record_event (Slept delayMs)"

definition sendAlert :: "alert_type \<Rightarrow> alert_message \<Rightarrow> ('w, unit) io" where
  "sendAlert t m = emit (Alerted t m)"

definition balanceLogger :: "log_record \<Rightarrow> ('w, unit) io" where
  "balanceLogger r = emit (Logged r)"

subsection \<open>\<^verbatim>\<open>getUsableBalances\<close> (lines 230-248)\<close>

text \<open>The getter \<^verbatim>\<open>poolDetails\<close> (lines 301-306): it throws while \<^verbatim>\<open>_poolDetails\<close> is not set.\<close>

definition poolDetails :: "('w, pool_details) io" where
  "poolDetails s =
     (case poolDetails_field s of
        None \<Rightarrow>
          (Inl (Error
            ''Pool details not initialized. Make sure to call MeteoraRebalancer.loadInitialState()''), s)
      | Some pd \<Rightarrow> (Inr pd, s))"

text \<open>
  The result is an object keyed by the two symbols; the second assignment overwrites the first
  when the symbols are equal.
\<close>

definition getUsableBalances :: "'w deps \<Rightarrow> ('w, string \<rightharpoonup> num) io" where
  "getUsableBalances d =
     bnd poolDetails (\<lambda>pd.
     bnd (invoke (GetBalance (Some (assetAMintAddress pd)))
            (wallet_getBalance d (Some (assetAMintAddress pd)))) (\<lambda>assetABalance.
     bnd (invoke (GetBalance (Some (assetBMintAddress pd)))
            (wallet_getBalance d (Some (assetBMintAddress pd)))) (\<lambda>assetBBalance.
     let isAssetANative = (toLowerCase (assetASymbol pd) = ''sol'');
         isAssetBNative = (toLowerCase (assetBSymbol pd) = ''sol'');
         result1 = Map.empty(assetASymbol pd \<mapsto>
           (if isAssetANative
            then Math_max (Fin 0) (jsub assetABalance (NATIVE_TOKEN_FEE_BUFFER d))
            else assetABalance));
         result2 = result1(assetBSymbol pd \<mapsto>
           (if isAssetBNative
            then Math_max (Fin 0) (jsub assetBBalance (NATIVE_TOKEN_FEE_BUFFER d))
            else assetBBalance))
     in ret result2)))"

text \<open>
  \<^verbatim>\<open>balances[symbol]\<close>, read as a number. Both keys are always set by
  \<open>getUsableBalances\<close>; a missing key would read \<^verbatim>\<open>undefined\<close>, which arithmetic turns into
  \<^verbatim>\<open>NaN\<close>.
\<close>

definition amount_of :: "(string \<rightharpoonup> num) \<Rightarrow> string \<Rightarrow> num" where
  "amount_of balances symbol = (case balances symbol of Some v \<Rightarrow> v | None \<Rightarrow> NaN)"

subsection \<open>\<^verbatim>\<open>retry\<close> (lines 254-271) and \<^verbatim>\<open>retryGetPositions\<close> (lines 277-299)\<close>

text \<open>
  The \<^verbatim>\<open>for\<close> loop of \<^verbatim>\<open>retry\<close>, from the value \<open>attempt\<close> of its counter on. \<open>lastError\<close>
  is \<open>None\<close> while the variable is \<^verbatim>\<open>undefined\<close>.
\<close>

function retry_loop ::
  "('w, 'a) io \<Rightarrow> nat \<Rightarrow> int \<Rightarrow> nat \<Rightarrow> exn option \<Rightarrow> ('w, 'a) io" where
  "retry_loop fn retries delayMs attempt lastError s =
     (if attempt < retries then
        (case fn s of
           (Inr v, s') \<Rightarrow> (Inr v, s')
         | (Inl error, s') \<Rightarrow>
             if insufficientFunds error then (Inl (Error ''Insufficient funds''), s')
             else retry_loop fn retries delayMs (attempt + 1) (Some error)
                    (if attempt < retries - 1 then sleep delayMs s' else s'))
      else (Inl (case lastError of None \<Rightarrow> NonError ''undefined'' | Some e \<Rightarrow> e), s))"
  by pat_completeness auto
termination
  by (relation "measure (\<lambda>(fn, retries, delayMs, attempt, lastError, s). retries - attempt)") auto

declare retry_loop.simps [simp del]

definition retry :: "('w, 'a) io \<Rightarrow> nat \<Rightarrow> int \<Rightarrow> ('w, 'a) io" where
  "retry fn retries delayMs = retry_loop fn retries delayMs 0 None"

definition getPositionsFromPool :: "'w deps \<Rightarrow> ('w, position_data list) io" where
  "getPositionsFromPool d =
     invoke (GetPositionsFromPool (poolAddress d)) (meteora_getPositionsFromPool d (poolAddress d))"

function retryGetPositions_loop ::
  "'w deps \<Rightarrow> nat \<Rightarrow> int \<Rightarrow> nat \<Rightarrow> position_data list \<Rightarrow> ('w, position_data list) io" where
  "retryGetPositions_loop d retries delayMs attempt lastResult s =
     (if attempt < retries then
        (case getPositionsFromPool d s of
           (Inr positions, s') \<Rightarrow>
             if length positions > 0 then (Inr positions, s')
             else retryGetPositions_loop d retries delayMs (attempt + 1) positions
                    (if attempt < retries - 1 then sleep delayMs s' else s')
         | (Inl error, s') \<Rightarrow>
             if insufficientFunds error then (Inl (Error ''Insufficient funds''), s')
             else retryGetPositions_loop d retries delayMs (attempt + 1) lastResult
                    (if attempt < retries - 1 then sleep delayMs s' else s'))
      else (Inr lastResult, s))"
  by pat_completeness auto
termination
  by (relation "measure (\<lambda>(d, retries, delayMs, attempt, lastResult, s). retries - attempt)") auto

declare retryGetPositions_loop.simps [simp del]

definition retryGetPositions :: "'w deps \<Rightarrow> nat \<Rightarrow> int \<Rightarrow> ('w, position_data list) io" where
  "retryGetPositions d retries delayMs = retryGetPositions_loop d retries delayMs 0 []"

subsection \<open>\<^verbatim>\<open>getPoolDetails\<close> (lines 308-342)\<close>

fun decimal :: "nat \<Rightarrow> string" where
  "decimal n =
     (if n < 10 then [char_of (48 + n)] else decimal (n div 10) @ [char_of (48 + n mod 10)])"

declare decimal.simps [simp del]

text \<open>\<^verbatim>\<open>name.split('-')\<close>\<close>

fun split_dash :: "string \<Rightarrow> string list" where
  "split_dash [] = [[]]"
| "split_dash (c # cs) =
     (if c = CHR ''-'' then [] # split_dash cs
      else (case split_dash cs of [] \<Rightarrow> [[c]] | part # parts \<Rightarrow> (c # part) # parts))"

text \<open>
  The destructuring \<^verbatim>\<open>[assetASymbol, assetBSymbol] = data.name.split('-')\<close> takes the first
  two parts; a part that is missing or empty is falsy.
\<close>

definition getPoolDetails :: "'w deps \<Rightarrow> string \<Rightarrow> ('w, pool_details option) io" where
  "getPoolDetails d address =
     try_catch
       (bnd (invoke (Fetch address) (fetch_pair d address)) (\<lambda>response.
          if \<not> ok response
          then throw (Error (''HTTP error! status: '' @ decimal (status response)))
          else
            (case json response of
               Inl e \<Rightarrow> throw e
             | Inr data \<Rightarrow>
                 (case split_dash (name data) of
                    assetA # assetB # _ \<Rightarrow>
                      if assetA = [] \<or> assetB = []
                      then throw (Error (''Invalid pool name format: '' @ name data))
                      else ret (Some \<lparr>binStep = bin_step data,
                                      assetAMintAddress = mint_x data,
                                      assetBMintAddress = mint_y data,
                                      assetASymbol = assetA,
                                      assetBSymbol = assetB\<rparr>)
                  | _ \<Rightarrow> throw (Error (''Invalid pool name format: '' @ name data))))))
       (\<lambda>error.
          seq (sendAlert ERROR (Message (''In getPoolDetails: '' @ exn_text error))) (ret None))"

subsection \<open>The two checks of the native balance (lines 344-349 and 501-514)\<close>

definition verifyNativeTokenBalanceForFees :: "'w deps \<Rightarrow> ('w, unit) io" where
  "verifyNativeTokenBalanceForFees d =
     bnd (invoke (GetBalance None) (wallet_getBalance d None)) (\<lambda>nativeBalance.
       if jlt nativeBalance (NATIVE_TOKEN_MIN_BALANCE d)
       then sendAlert WARNING (Message ''Low native token balance detected'')
       else ret ())"

definition verifyNativeTokenBufferForPositions :: "'w deps \<Rightarrow> ('w, unit) io" where
  "verifyNativeTokenBufferForPositions d =
     bnd (invoke (GetBalance None) (wallet_getBalance d None)) (\<lambda>nativeBalance.
       if jlt nativeBalance (NATIVE_TOKEN_FEE_BUFFER d)
       then seq (sendAlert ERROR
                   (InsufficientNativeBalance nativeBalance (NATIVE_TOKEN_FEE_BUFFER d)))
              (throw (Error ''Insufficient native token balance for position creation fees''))
       else ret ())"

subsection \<open>\<^verbatim>\<open>rebalancePosition\<close> (lines 397-499)\<close>

definition read_field :: "('w rebalancer \<Rightarrow> 'a) \<Rightarrow> ('w, 'a) io" where
  "read_field f s = (Inr (f s), s)"

definition getActiveBin :: "'w deps \<Rightarrow> ('w, bin_liquidity option) io" where
  "getActiveBin d = invoke (GetActiveBin (poolAddress d)) (meteora_getActiveBin d (poolAddress d))"

definition swap :: "'w deps \<Rightarrow> string \<Rightarrow> string \<Rightarrow> num \<Rightarrow> ('w, num) io" where
  "swap d inputMint outputMint amount =
     invoke (Swap inputMint outputMint amount) (jupiter_swap d inputMint outputMint amount)"

definition TOTAL_BALANCE_PREFIX :: string where
  "TOTAL_BALANCE_PREFIX = ''Total usable balances after rebalancing''"

text \<open>
  Lines 427-477: the targets of the 50/50 split and the swap, from the two usable amounts and
  the current price.
\<close>

definition rebalancePosition_swap ::
  "'w deps \<Rightarrow> pool_details \<Rightarrow> num \<Rightarrow> num \<Rightarrow> num \<Rightarrow> ('w, unit) io" where
  "rebalancePosition_swap d pd assetAAmount assetBAmount currentPrice =
     (let totalValueInAssetB = jadd (jmul assetAAmount currentPrice) assetBAmount;
          targetValueInAssetB = jdiv totalValueInAssetB (Fin 2);
          targetAssetABalance = jdiv targetValueInAssetB currentPrice;
          targetAssetBBalance = targetValueInAssetB
      in
      if jgt assetAAmount targetAssetABalance then
        let assetAToSwap = jsub assetAAmount targetAssetABalance in
        bnd (retry (swap d (assetAMintAddress pd) (assetBMintAddress pd) assetAToSwap) 5 5000)
          (\<lambda>outputAssetBAmount.
             balanceLogger (LogAction (Swapped assetAToSwap (assetASymbol pd)
                                        outputAssetBAmount (assetBSymbol pd))))
      else if jgt assetBAmount targetAssetBBalance then
        let assetBToSwap = jsub assetBAmount targetAssetBBalance in
        bnd (retry (swap d (assetBMintAddress pd) (assetAMintAddress pd) assetBToSwap) 5 5000)
          (\<lambda>outputAssetAAmount.
             balanceLogger (LogAction (Swapped assetBToSwap (assetBSymbol pd)
                                        outputAssetAAmount (assetASymbol pd))))
      else ret ())"

text \<open>
  The whole method. The getter \<^verbatim>\<open>this.poolDetails\<close> is read once, after the balances:
  \<^verbatim>\<open>_poolDetails\<close> does not change inside the method. An empty pool address and a missing
  active bin are falsy. The \<^verbatim>\<open>catch\<close> clause logs to the console and throws the error again.
\<close>

definition rebalancePosition :: "'w deps \<Rightarrow> ('w, unit) io" where
  "rebalancePosition d =
     try_catch
       (bnd (getUsableBalances d) (\<lambda>balances.
        bnd poolDetails (\<lambda>pd.
        if poolAddress d = [] then throw (Error ''No working pool address found'')
        else
        bnd (retry (getActiveBin d) 5 5000) (\<lambda>activeBin.
        case activeBin of
          None \<Rightarrow> throw (Error ''Failed to get active bin from Meteora pool'')
        | Some bin \<Rightarrow>
            seq (rebalancePosition_swap d pd (amount_of balances (assetASymbol pd))
                   (amount_of balances (assetBSymbol pd)) (pricePerToken bin))
           (seq (balanceLogger (LogCurrentPrice (pricePerToken bin)
                                  (assetASymbol pd) (assetBSymbol pd)))
           (bnd (getUsableBalances d) (\<lambda>newBalances.
            seq (balanceLogger (LogBalances (amount_of newBalances (assetASymbol pd))
                                  (amount_of newBalances (assetBSymbol pd))
                                  TOTAL_BALANCE_PREFIX (assetASymbol pd) (assetBSymbol pd)))
                (modify (sleep 5000)))))))))
       (\<lambda>error. throw error)"

subsection \<open>\<^verbatim>\<open>addLiquidity\<close> (lines 516-548) and \<^verbatim>\<open>removeLiquidity\<close> (lines 550-585)\<close>

text \<open>Lines 518-534: the deposit of the usable balances and its log record.\<close>

definition addLiquidity_deposit :: "'w deps \<Rightarrow> ('w, unit) io" where
  "addLiquidity_deposit d =
     bnd (getUsableBalances d) (\<lambda>balances.
     bnd poolDetails (\<lambda>pd.
     bnd (read_field meteoraRangeInterval) (\<lambda>rangeInterval.
     let amountA = amount_of balances (assetASymbol pd);
         amountB = amount_of balances (assetBSymbol pd)
     in
     seq (retry (invoke (AddLiquidity (poolAddress d) amountA amountB rangeInterval)
                   (meteora_addLiquidity d (poolAddress d) amountA amountB rangeInterval))
            5 5000)
         (balanceLogger (LogBalances amountA amountB ''Liquidity added to pool''
                           (assetASymbol pd) (assetBSymbol pd))))))"

text \<open>Lines 536-547: the bounds of the new position are read back.\<close>

definition adopt :: "position_data \<Rightarrow> 'w rebalancer \<Rightarrow> 'w rebalancer" where
  "adopt position s =
     s\<lparr>currLowerBinId := lowerBinId position, currUpperBinId := upperBinId position\<rparr>"

definition addLiquidity_collect :: "'w deps \<Rightarrow> ('w, unit) io" where
  "addLiquidity_collect d =
     bnd (retryGetPositions d 10 10000) (\<lambda>positions.
       case positions of
         [] \<Rightarrow> ret ()
       | position # _ \<Rightarrow> modify (adopt position))"

text \<open>The whole method: line 517 is the check of the fee buffer.\<close>

definition addLiquidity :: "'w deps \<Rightarrow> ('w, unit) io" where
  "addLiquidity d =
     seq (verifyNativeTokenBufferForPositions d)
    (seq (addLiquidity_deposit d)
         (addLiquidity_collect d))"

definition removeLiquidity :: "'w deps \<Rightarrow> ('w, unit) io" where
  "removeLiquidity d =
     bnd (retry (invoke (RemoveLiquidity (poolAddress d))
                   (meteora_removeLiquidity d (poolAddress d)))
            5 5000) (\<lambda>(liquidityRemoved, feesClaimed).
     bnd poolDetails (\<lambda>pd.
     seq (balanceLogger (LogBalances (fst liquidityRemoved) (snd liquidityRemoved)
                           ''Liquidity removed from pool'' (assetASymbol pd) (assetBSymbol pd)))
    (seq (balanceLogger (LogBalances (fst feesClaimed) (snd feesClaimed)
                           ''Rewards claimed'' (assetASymbol pd) (assetBSymbol pd)))
    (seq (modify (sleep 5000))
    (bnd (getUsableBalances d) (\<lambda>newBalances.
     balanceLogger (LogAction (Withdrew (poolAddress d)
                                 (amount_of newBalances (assetASymbol pd)) (assetASymbol pd)
                                 (amount_of newBalances (assetBSymbol pd)) (assetBSymbol pd)))))))))"

subsection \<open>\<^verbatim>\<open>loadInitialState\<close> (lines 351-395)\<close>

text \<open>
  Lines 352-368: the pool details, the range interval and the first read of the balances.
  \<^verbatim>\<open>_poolDetails\<close> is assigned before it is tested, so a failed fetch clears it. The alert of
  the clipped range is not awaited.
\<close>

definition loadInitialState_resolve :: "'w deps \<Rightarrow> ('w, unit) io" where
  "loadInitialState_resolve d =
     bnd (getPoolDetails d (poolAddress d)) (\<lambda>details.
     seq (modify (\<lambda>s. s\<lparr>poolDetails_field := details\<rparr>))
    (if details = None
     then throw (Error (''Failed to get pool details for pool: '' @ poolAddress d))
     else
     bnd poolDetails (\<lambda>pd.
     let rangeInterval =
           Math_ceil (jdiv (jmul (POSITION_RANGE_PER_SIDE_RELATIVE d) (Fin 10000)) (binStep pd))
     in
     seq (if jgt rangeInterval METERORA_MAX_BINS_PER_SIDE
          then sendAlert WARNING (RangeIntervalClipped rangeInterval)
          else ret ())
    (seq (modify (\<lambda>s. s\<lparr>meteoraRangeInterval :=
                          Some (Math_min rangeInterval METERORA_MAX_BINS_PER_SIDE)\<rparr>))
    (bnd (getUsableBalances d) (\<lambda>balances. ret ()))))))"

text \<open>
  Lines 370-394: the positions of the pool are read, and a position is created or the first
  one adopted. \<^verbatim>\<open>positions.length === 0\<close> is the first case; otherwise \<^verbatim>\<open>positions[0]\<close>
  is the head.
\<close>

definition loadInitialState_positions :: "'w deps \<Rightarrow> ('w, bool) io" where
  "loadInitialState_positions d =
     bnd (retryGetPositions d 3 5000) (\<lambda>positions.
       case positions of
         [] \<Rightarrow>
           seq (verifyNativeTokenBalanceForFees d)
          (seq (rebalancePosition d)
          (seq (addLiquidity d)
               (ret True)))
       | position # _ \<Rightarrow> seq (modify (adopt position)) (ret False))"

definition loadInitialState :: "'w deps \<Rightarrow> ('w, bool) io" where
  "loadInitialState d = seq (loadInitialState_resolve d) (loadInitialState_positions d)"

subsection \<open>\<^verbatim>\<open>rebalance\<close> (lines 587-628)\<close>

text \<open>
  Lines 589-615, the body of the \<^verbatim>\<open>try\<close>. \<^verbatim>\<open>activeBin.binId\<close> on a missing active bin throws
  a \<^verbatim>\<open>TypeError\<close>; its message is the engine's.
\<close>

definition rebalance_try :: "'w deps \<Rightarrow> ('w, bool) io" where
  "rebalance_try d =
     (if poolAddress d = [] then throw (Error ''No working pool address found'')
      else
      bnd (retry (getActiveBin d) 5 5000) (\<lambda>activeBin.
      case activeBin of
        None \<Rightarrow> throw (Error ''Cannot read properties of undefined (reading binId)'')
      | Some bin \<Rightarrow>
          bnd (read_field currLowerBinId) (\<lambda>lower.
          bnd (read_field currUpperBinId) (\<lambda>upper.
          if binId bin < lower \<or> binId bin > upper then
            seq (balanceLogger (LogAction (DetectedOutOfRange (binId bin) lower upper)))
           (seq (removeLiquidity d)
           (seq (rebalancePosition d)
           (seq (verifyNativeTokenBufferForPositions d)
           (seq (addLiquidity d)
                (ret True)))))
          else ret False))))"

text \<open>
  Lines 616-627, the \<^verbatim>\<open>catch\<close> clause. It awaits \<open>loadInitialState\<close> outside any \<^verbatim>\<open>try\<close>.
\<close>

definition rebalance_catch :: "'w deps \<Rightarrow> exn \<Rightarrow> ('w, bool) io" where
  "rebalance_catch d error =
     seq (if noPositionsFound error then seq (loadInitialState d) (ret ()) else ret ())
    (seq (sendAlert ERROR (Message (''In rebalanceMeteora: '' @ exn_text error)))
         (ret False))"

definition rebalance :: "'w deps \<Rightarrow> ('w, bool) io" where
  "rebalance d = try_catch (rebalance_try d) (rebalance_catch d)"

subsection \<open>The object as the constructor leaves it (lines 198-223)\<close>

definition new_rebalancer :: "'w \<Rightarrow> 'w rebalancer" where
  "new_rebalancer w =
     \<lparr>world = w, trace = [], poolDetails_field = None,
      currLowerBinId = 0, currUpperBinId = 0, meteoraRangeInterval = None\<rparr>"

subsection \<open>Reading a trace\<close>






fun moves_funds :: "call \<Rightarrow> bool" where
  "moves_funds (Swap _ _ _) = True"
| "moves_funds (AddLiquidity _ _ _ _) = True"
| "moves_funds (RemoveLiquidity _) = True"
| "moves_funds _ = False"

text \<open>The fields the object caches.\<close>

definition cached ::
  "'w rebalancer \<Rightarrow> pool_details option \<times> int \<times> int \<times> num option" where
  "cached s = (poolDetails_field s, currLowerBinId s, currUpperBinId s, meteoraRangeInterval s)"

subsection \<open>A simulated ledger\<close>

text \<open>
  A small ledger on which the methods can be run: a wallet holding native tokens and the two
  assets of one pool, at most one position, a fixed active bin, and an indexer that may answer
  the position query with an empty list for some queries after a deposit.
\<close>

record ledger =
  holdings :: "(string \<times> num) list"
  pool_pair :: pair_json
  endpoint_up :: bool
  open_positions :: "position_data list"
  deposited :: "num \<times> num"
  active_bin :: bin_liquidity
  hidden_queries :: nat
  indexer_lag :: nat

definition NATIVE_MINT :: string where
  "NATIVE_MINT = ''So11''"

definition holding :: "(string \<times> num) list \<Rightarrow> string \<Rightarrow> num" where
  "holding hs mint = (case map_of hs mint of Some v \<Rightarrow> v | None \<Rightarrow> Fin 0)"

definition credit :: "string \<Rightarrow> num \<Rightarrow> (string \<times> num) list \<Rightarrow> (string \<times> num) list" where
  "credit mint v hs = (mint, jadd (holding hs mint) v) # filter (\<lambda>kv. fst kv \<noteq> mint) hs"

definition sim_getBalance :: "string option \<Rightarrow> ledger \<Rightarrow> (exn + num) \<times> ledger" where
  "sim_getBalance mint l =
     (Inr (holding (holdings l) (case mint of None \<Rightarrow> NATIVE_MINT | Some m \<Rightarrow> m)), l)"

definition sim_getActiveBin :: "string \<Rightarrow> ledger \<Rightarrow> (exn + bin_liquidity option) \<times> ledger" where
  "sim_getActiveBin address l = (Inr (Some (active_bin l)), l)"

definition sim_getPositionsFromPool ::
  "string \<Rightarrow> ledger \<Rightarrow> (exn + position_data list) \<times> ledger" where
  "sim_getPositionsFromPool address l =
     (if hidden_queries l > 0 then (Inr [], l\<lparr>hidden_queries := hidden_queries l - 1\<rparr>)
      else (Inr (open_positions l), l))"

definition bins_per_side :: "num option \<Rightarrow> int" where
  "bins_per_side r = (case r of Some (Fin q) \<Rightarrow> \<lfloor>q\<rfloor> | _ \<Rightarrow> 0)"

definition sim_addLiquidity ::
  "string \<Rightarrow> num \<Rightarrow> num \<Rightarrow> num option \<Rightarrow> ledger \<Rightarrow> (exn + unit) \<times> ledger" where
  "sim_addLiquidity address amountA amountB rangeInterval l =
     (Inr (),
      l\<lparr>holdings := credit (mint_y (pool_pair l)) (jneg amountB)
                      (credit (mint_x (pool_pair l)) (jneg amountA) (holdings l)),
        deposited := (amountA, amountB),
        open_positions :=
          [\<lparr>lowerBinId = binId (active_bin l) - bins_per_side rangeInterval,
            upperBinId = binId (active_bin l) + bins_per_side rangeInterval\<rparr>],
        hidden_queries := indexer_lag l\<rparr>)"

definition sim_removeLiquidity ::
  "string \<Rightarrow> ledger \<Rightarrow> (exn + (num \<times> num) \<times> (num \<times> num)) \<times> ledger" where
  "sim_removeLiquidity address l =
     (case open_positions l of
        [] \<Rightarrow> (Inl (Error ''No positions found in this pool''), l)
      | _ # _ \<Rightarrow>
          (Inr (deposited l, (Fin 0, Fin 0)),
           l\<lparr>holdings := credit (mint_y (pool_pair l)) (snd (deposited l))
                           (credit (mint_x (pool_pair l)) (fst (deposited l)) (holdings l)),
             deposited := (Fin 0, Fin 0),
             open_positions := []\<rparr>))"

definition sim_swap :: "string \<Rightarrow> string \<Rightarrow> num \<Rightarrow> ledger \<Rightarrow> (exn + num) \<times> ledger" where
  "sim_swap inputMint outputMint amount l =
     (let out = (if inputMint = mint_x (pool_pair l)
                 then jmul amount (pricePerToken (active_bin l))
                 else jdiv amount (pricePerToken (active_bin l)))
      in (Inr out,
          l\<lparr>holdings := credit outputMint out (credit inputMint (jneg amount) (holdings l))\<rparr>))"

definition sim_fetch :: "string \<Rightarrow> ledger \<Rightarrow> (exn + http_response) \<times> ledger" where
  "sim_fetch address l =
     (if endpoint_up l then (Inr \<lparr>ok = True, status = 200, json = Inr (pool_pair l)\<rparr>, l)
      else (Inl (Error ''fetch failed''), l))"

text \<open>
  The collaborators of the simulated ledger, with the range fraction \<open>r\<close> and the two default
  constants.
\<close>

definition simulator :: "num \<Rightarrow> ledger deps" where
  "simulator r =
     \<lparr>wallet_getBalance = sim_getBalance,
      meteora_getActiveBin = sim_getActiveBin,
      meteora_getPositionsFromPool = sim_getPositionsFromPool,
      meteora_addLiquidity = sim_addLiquidity,
      meteora_removeLiquidity = sim_removeLiquidity,
      jupiter_swap = sim_swap,
      fetch_pair = sim_fetch,
      poolAddress = ''pool'',
      POSITION_RANGE_PER_SIDE_RELATIVE = r,
      NATIVE_TOKEN_FEE_BUFFER = default_NATIVE_TOKEN_FEE_BUFFER,
      NATIVE_TOKEN_MIN_BALANCE = default_NATIVE_TOKEN_MIN_BALANCE\<rparr>"

text \<open>Two pools: the native token against a dollar token, and two tokens that are not native.\<close>

definition SOL_USDC :: pair_json where
  "SOL_USDC = \<lparr>name = ''SOL-USDC'', bin_step = Fin 25, mint_x = ''So11'', mint_y = ''EPjF''\<rparr>"

definition JUP_USDC :: pair_json where
  "JUP_USDC = \<lparr>name = ''JUP-USDC'', bin_step = Fin 25, mint_x = ''JUPy'', mint_y = ''EPjF''\<rparr>"

subsection \<open>Words for stating what \<^verbatim>\<open>retry\<close> does\<close>

text \<open>
  An attempt of the operation ends in a result, in a failure that signals a funding shortfall,
  or in another failure. After a failure of the last kind that is not the last attempt, the
  loop waits: \<open>failed_attempt\<close> is the object after the attempt and the wait.
\<close>

definition transient :: "(exn + 'a) \<times> 's \<Rightarrow> bool" where
  "transient r = (case fst r of Inl e \<Rightarrow> \<not> insufficientFunds e | Inr _ \<Rightarrow> False)"

definition fatal :: "(exn + 'a) \<times> 's \<Rightarrow> bool" where
  "fatal r = (case fst r of Inl e \<Rightarrow> insufficientFunds e | Inr _ \<Rightarrow> False)"

definition succeeded :: "(exn + 'a) \<times> 's \<Rightarrow> bool" where
  "succeeded r = (case fst r of Inl _ \<Rightarrow> False | Inr _ \<Rightarrow> True)"

definition failed_attempt :: "('w, 'a) io \<Rightarrow> int \<Rightarrow> 'w rebalancer \<Rightarrow> 'w rebalancer" where
  "failed_attempt fn delayMs s = sleep delayMs (snd (fn s))"

text \<open>A service that always fails with the given message and counts how often it is called.\<close>

definition failing :: "string \<Rightarrow> (nat, unit) io" where
  "failing msg = invoke (GetActiveBin ''pool'') (\<lambda>w. (Inl (Error msg), Suc w))"

subsection \<open>Words for stating which events a method adds\<close>

text \<open>
  An event is benign when it is not a call that moves funds or liquidity. A method is quiet
  for a property of events when every run of it leaves the cached fields as they are and adds
  only events with the property.
\<close>

definition benign :: "event \<Rightarrow> bool" where
  "benign e = (case e of Invoked c \<Rightarrow> \<not> moves_funds c | _ \<Rightarrow> True)"

definition quiet :: "(event \<Rightarrow> bool) \<Rightarrow> ('w, 'a) io \<Rightarrow> bool" where
  "quiet P m =
     (\<forall>s r s'. m s = (r, s') \<longrightarrow>
        cached s' = cached s \<and> (\<exists>evs. trace s' = trace s @ evs \<and> list_all P evs))"


subsection \<open>The sequences of steps the specification names\<close>



subsection \<open>Changes of the object that the theorems name\<close>



subsection \<open>Objects on the simulated ledger\<close>

text \<open>
  An object that tracks a position on bins 100 to 120 of the pool of two tokens that are not
  native, with the given active bin and indexer lag. The position holds 40 of the second
  token, the price is 2 and the wallet holds one native token for fees.
\<close>

definition watching :: "int \<Rightarrow> nat \<Rightarrow> ledger rebalancer" where
  "watching active lag =
     \<lparr>world =
        \<lparr>holdings = [(''So11'', Fin 1), (''JUPy'', Fin 0), (''EPjF'', Fin 0)],
         pool_pair = JUP_USDC, endpoint_up = True,
         open_positions = [\<lparr>lowerBinId = 100, upperBinId = 120\<rparr>],
         deposited = (Fin 0, Fin 40),
         active_bin = \<lparr>binId = active, pricePerToken = Fin 2\<rparr>,
         hidden_queries = 0, indexer_lag = lag\<rparr>,
      trace = [],
      poolDetails_field =
        Some \<lparr>binStep = Fin 25, assetAMintAddress = ''JUPy'', assetBMintAddress = ''EPjF'',
              assetASymbol = ''JUP'', assetBSymbol = ''USDC''\<rparr>,
      currLowerBinId = 100, currUpperBinId = 120,
      meteoraRangeInterval = Some (Fin 20)\<rparr>"





section \<open>Properties\<close>

subsection \<open>Sequencing\<close>

lemma bnd_Inr: "m s = (Inr x, s') \<Longrightarrow> bnd m f s = f x s'"
  by (simp add: bnd_def)

lemma bnd_Inl: "m s = (Inl e, s') \<Longrightarrow> bnd m f s = (Inl e, s')"
  by (simp add: bnd_def)


lemma seq_Inl: "m s = (Inl e, s') \<Longrightarrow> seq m n s = (Inl e, s')"
  by (simp add: seq_def bnd_def)

subsection \<open>The retry executor\<close>

lemma retry_loop_transient:
  assumes "attempt + 1 < retries" and "transient (fn s)"
  shows "\<exists>l'. retry_loop fn retries delayMs attempt l s =
           retry_loop fn retries delayMs (attempt + 1) l' (failed_attempt fn delayMs s)"
proof (cases "fn s")
  case (Pair r s')
  with assms(2) obtain e where e: "r = Inl e" "\<not> insufficientFunds e"
    by (cases r) (auto simp: transient_def)
  from assms(1) have "attempt < retries" "attempt < retries - 1" by arith+
  with Pair e show ?thesis
    by (subst retry_loop.simps) (auto simp: failed_attempt_def)
qed

lemma retry_loop_skip:
  "attempt + k < retries \<Longrightarrow>
   list_all (\<lambda>i. transient (fn ((failed_attempt fn delayMs ^^ i) s))) [0..<k] \<Longrightarrow>
   \<exists>l'. retry_loop fn retries delayMs attempt l s =
     retry_loop fn retries delayMs (attempt + k) l' ((failed_attempt fn delayMs ^^ k) s)"
proof (induction k arbitrary: attempt l s)
  case 0
  then show ?case by auto
next
  case (Suc k)
  from Suc.prems(2)
  have all: "\<And>i. i < Suc k \<Longrightarrow> transient (fn ((failed_attempt fn delayMs ^^ i) s))"
    by (auto simp: list_all_iff less_Suc_eq)
  from all[of 0] have t0: "transient (fn s)" by simp
  from Suc.prems(1) have lt: "attempt + 1 < retries" by arith
  from retry_loop_transient[of attempt retries fn s delayMs l, OF lt t0] obtain l1 where
    step: "retry_loop fn retries delayMs attempt l s =
           retry_loop fn retries delayMs (attempt + 1) l1 (failed_attempt fn delayMs s)"
    by blast
  have shift: "\<And>i. (failed_attempt fn delayMs ^^ i) (failed_attempt fn delayMs s) =
      (failed_attempt fn delayMs ^^ Suc i) s"
    by (simp only: funpow_swap1 funpow.simps o_apply)
  have rest: "list_all
      (\<lambda>i. transient (fn ((failed_attempt fn delayMs ^^ i) (failed_attempt fn delayMs s))))
      [0..<k]"
    unfolding list_all_iff shift
  proof
    fix i assume "i \<in> set [0..<k]"
    then have "Suc i < Suc k" by simp
    then show "transient (fn ((failed_attempt fn delayMs ^^ Suc i) s))" by (rule all)
  qed
  from Suc.prems(1) have "(attempt + 1) + k < retries" by arith
  from Suc.IH[of "attempt + 1" "failed_attempt fn delayMs s" l1, OF this rest] obtain l' where
    "retry_loop fn retries delayMs (attempt + 1) l1 (failed_attempt fn delayMs s) =
     retry_loop fn retries delayMs (attempt + 1 + k) l'
       ((failed_attempt fn delayMs ^^ k) (failed_attempt fn delayMs s))"
    by blast
  with step have "retry_loop fn retries delayMs attempt l s =
     retry_loop fn retries delayMs (attempt + Suc k) l' ((failed_attempt fn delayMs ^^ Suc k) s)"
    by (simp only: shift add_Suc_right Suc_eq_plus1 add.assoc add.commute[of 1 k])
  then show ?case by blast
qed

lemma retry_loop_fatal:
  "attempt < retries \<Longrightarrow> fatal (fn s) \<Longrightarrow>
   retry_loop fn retries delayMs attempt l s = (Inl (Error ''Insufficient funds''), snd (fn s))"
  by (subst retry_loop.simps) (auto simp: fatal_def split: prod.splits sum.splits)

lemma retry_loop_succeeded:
  "attempt < retries \<Longrightarrow> succeeded (fn s) \<Longrightarrow>
   retry_loop fn retries delayMs attempt l s = fn s"
  by (subst retry_loop.simps) (auto simp: succeeded_def split: prod.splits sum.splits)

lemma retry_loop_last:
  "attempt < retries \<Longrightarrow> attempt = retries - 1 \<Longrightarrow> transient (fn s) \<Longrightarrow>
   retry_loop fn retries delayMs attempt l s = fn s"
  apply (subst retry_loop.simps)
  apply (auto simp: transient_def split: prod.splits sum.splits)
  apply (subst retry_loop.simps)
  apply auto
  done

text \<open>
  C4. Let the first \<open>k\<close> attempts of the operation fail with errors that do not signal a
  funding shortfall, each followed by the wait, with \<open>k\<close> below the attempt count. Then the
  next attempt is made on the object these \<open>k\<close> failed attempts leave, and it decides: a
  failure that signals a funding shortfall ends the loop at once with the error
  \<^verbatim>\<open>Insufficient funds\<close> and the object as that attempt left it, whatever the attempt count;
  another failure of the last attempt (\<open>k = retries - 1\<close>, so the operation has run exactly
  \<open>retries\<close> times) is surfaced as it is, with no wait after it; a result is returned.
\<close>

theorem retry_contract:
  assumes "k < retries"
    and "list_all (\<lambda>i. transient (fn ((failed_attempt fn delayMs ^^ i) s))) [0..<k]"
  shows "(fatal (fn ((failed_attempt fn delayMs ^^ k) s)) \<longrightarrow>
            retry fn retries delayMs s =
              (Inl (Error ''Insufficient funds''), snd (fn ((failed_attempt fn delayMs ^^ k) s))))
       \<and> (transient (fn ((failed_attempt fn delayMs ^^ k) s)) \<and> k = retries - 1 \<longrightarrow>
            retry fn retries delayMs s = fn ((failed_attempt fn delayMs ^^ k) s))
       \<and> (succeeded (fn ((failed_attempt fn delayMs ^^ k) s)) \<longrightarrow>
            retry fn retries delayMs s = fn ((failed_attempt fn delayMs ^^ k) s))"
proof -
  from assms(1) have "0 + k < retries" by simp
  from retry_loop_skip[OF this assms(2)] obtain l' where
    "retry fn retries delayMs s =
       retry_loop fn retries delayMs k l' ((failed_attempt fn delayMs ^^ k) s)"
    unfolding retry_def by auto
  with assms(1) show ?thesis
    by (auto simp: retry_loop_fatal retry_loop_succeeded retry_loop_last)
qed

lemmas retry_words = failed_attempt_def transient_def fatal_def succeeded_def failing_def
  invoke_def record_event_def sleep_def new_rebalancer_def

text \<open>
  With the defaults (5 attempts, 5 seconds): a service that always reports insufficient funds
  is called once; a service that always reports another error is called five times, with four
  waits.
\<close>

theorem retry_contract_witness:
  "retry (failing ''custom program error: insufficient funds for rent'') 5 5000 (new_rebalancer 0) =
     (Inl (Error ''Insufficient funds''),
      (new_rebalancer 1)\<lparr>trace := [Invoked (GetActiveBin ''pool'')]\<rparr>)
   \<and> retry (failing ''429 Too Many Requests'') 5 5000 (new_rebalancer 0) =
     (Inl (Error ''429 Too Many Requests''),
      (new_rebalancer 5)\<lparr>trace :=
         [Invoked (GetActiveBin ''pool''), Slept 5000, Invoked (GetActiveBin ''pool''), Slept 5000,
          Invoked (GetActiveBin ''pool''), Slept 5000, Invoked (GetActiveBin ''pool''), Slept 5000,
          Invoked (GetActiveBin ''pool'')]\<rparr>)"
  using retry_contract[of 0 5 "failing ''custom program error: insufficient funds for rent''" 5000
          "new_rebalancer 0"]
        retry_contract[of 4 5 "failing ''429 Too Many Requests''" 5000 "new_rebalancer 0"]
  by (simp add: retry_words upt_rec[of 0] eval_nat_numeral)

subsection \<open>Which events a method adds\<close>

lemma quietI:
  "(\<And>s r s'. m s = (r, s') \<Longrightarrow>
      cached s' = cached s \<and> (\<exists>evs. trace s' = trace s @ evs \<and> list_all P evs)) \<Longrightarrow> quiet P m"
  by (simp add: quiet_def)

lemma quietD:
  "quiet P m \<Longrightarrow> m s = (r, s') \<Longrightarrow>
     cached s' = cached s \<and> (\<exists>evs. trace s' = trace s @ evs \<and> list_all P evs)"
  by (simp add: quiet_def)

lemma quiet_ret: "quiet P (ret x)"
  by (rule quietI) (auto simp: ret_def)

lemma quiet_throw: "quiet P (throw e)"
  by (rule quietI) (auto simp: throw_def)

lemma quiet_read_field: "quiet P (read_field f)"
  by (rule quietI) (auto simp: read_field_def)

lemma quiet_poolDetails: "quiet P poolDetails"
  by (rule quietI) (auto simp: poolDetails_def split: option.splits)

lemma quiet_record: "P e \<Longrightarrow> quiet P (modify (record_event e))"
  by (rule quietI) (auto simp: modify_def record_event_def cached_def)

lemma quiet_emit: "P e \<Longrightarrow> quiet P (emit e)"
  by (simp add: emit_def quiet_record)

lemma quiet_balanceLogger: "P (Logged r) \<Longrightarrow> quiet P (balanceLogger r)"
  by (simp add: balanceLogger_def quiet_emit)

lemma quiet_sendAlert: "P (Alerted t m) \<Longrightarrow> quiet P (sendAlert t m)"
  by (simp add: sendAlert_def quiet_emit)

lemma quiet_sleep: "P (Slept d) \<Longrightarrow> quiet P (modify (sleep d))"
  by (simp add: sleep_def quiet_record)

lemma quiet_invoke: "P (Invoked c) \<Longrightarrow> quiet P (invoke c operation)"
  by (rule quietI) (auto simp: invoke_def record_event_def cached_def split: prod.splits)

lemma quiet_bnd:
  assumes "quiet P m" and "\<And>x. quiet P (f x)"
  shows "quiet P (bnd m f)"
proof (rule quietI)
  fix s r s' assume run: "bnd m f s = (r, s')"
  obtain r1 s1 where m: "m s = (r1, s1)" by (cases "m s")
  from quietD[OF assms(1) m] obtain evs1 where
    one: "cached s1 = cached s" "trace s1 = trace s @ evs1" "list_all P evs1" by blast
  show "cached s' = cached s \<and> (\<exists>evs. trace s' = trace s @ evs \<and> list_all P evs)"
  proof (cases r1)
    case (Inl e)
    with run m have "s' = s1" by (simp add: bnd_def)
    with one show ?thesis by blast
  next
    case (Inr x)
    with run m have "f x s1 = (r, s')" by (simp add: bnd_def)
    from quietD[OF assms(2) this] obtain evs2 where
      "cached s' = cached s1" "trace s' = trace s1 @ evs2" "list_all P evs2" by blast
    with one have "cached s' = cached s" "trace s' = trace s @ (evs1 @ evs2)"
      "list_all P (evs1 @ evs2)" by simp_all
    then show ?thesis by blast
  qed
qed

lemma quiet_seq: "quiet P m \<Longrightarrow> quiet P n \<Longrightarrow> quiet P (seq m n)"
  by (simp add: seq_def quiet_bnd)


lemma quiet_wait:
  assumes "P (Slept delayMs)"
  shows "cached (if b then sleep delayMs s else s) = cached s \<and>
     (\<exists>evs. trace (if b then sleep delayMs s else s) = trace s @ evs \<and> list_all P evs)"
  using assms by (auto simp: sleep_def record_event_def cached_def)

lemma quiet_retry_loop:
  assumes P: "P (Slept delayMs)" and fn: "quiet P fn"
  shows "quiet P (retry_loop fn retries delayMs attempt l)"
proof (rule quietI)
  fix s r s'
  show "retry_loop fn retries delayMs attempt l s = (r, s') \<Longrightarrow>
      cached s' = cached s \<and> (\<exists>evs. trace s' = trace s @ evs \<and> list_all P evs)"
  proof (induction n \<equiv> "retries - attempt" arbitrary: attempt l s)
    case 0
    then have "\<not> attempt < retries" by simp
    with 0(2) have "s' = s" by (subst (asm) retry_loop.simps) simp
    then show ?case by simp
  next
    case (Suc n)
    then have lt: "attempt < retries" by arith
    obtain r1 s1 where f: "fn s = (r1, s1)" by (cases "fn s")
    from quietD[OF fn f] obtain evs1 where
      one: "cached s1 = cached s" "trace s1 = trace s @ evs1" "list_all P evs1" by blast
    show ?case
    proof (cases r1)
      case (Inr v)
      with Suc.prems lt f have "s' = s1" by (subst (asm) retry_loop.simps) simp
      with one show ?thesis by blast
    next
      case (Inl e)
      show ?thesis
      proof (cases "insufficientFunds e")
        case True
        with Suc.prems lt f Inl have "s' = s1" by (subst (asm) retry_loop.simps) simp
        with one show ?thesis by blast
      next
        case False
        let ?s2 = "if attempt < retries - 1 then sleep delayMs s1 else s1"
        from Suc.prems lt f Inl False
        have run: "retry_loop fn retries delayMs (attempt + 1) (Some e) ?s2 = (r, s')"
          by (subst (asm) retry_loop.simps) simp
        from Suc.hyps(2) have "n = retries - (attempt + 1)" by arith
        from Suc.hyps(1)[OF this run] obtain evs3 where
          three: "cached s' = cached ?s2" "trace s' = trace ?s2 @ evs3" "list_all P evs3" by blast
        from quiet_wait[of P delayMs "attempt < retries - 1" s1, OF P] obtain evs2 where
          two: "cached ?s2 = cached s1" "trace ?s2 = trace s1 @ evs2" "list_all P evs2" by blast
        from one two three have "cached s' = cached s"
          "trace s' = trace s @ (evs1 @ evs2 @ evs3)" "list_all P (evs1 @ evs2 @ evs3)"
          by simp_all
        then show ?thesis by blast
      qed
    qed
  qed
qed

lemma quiet_retry: "P (Slept delayMs) \<Longrightarrow> quiet P fn \<Longrightarrow> quiet P (retry fn retries delayMs)"
  by (simp add: retry_def quiet_retry_loop)

lemma quiet_retryGetPositions_loop:
  assumes P: "P (Slept delayMs)" and Q: "P (Invoked (GetPositionsFromPool (poolAddress d)))"
  shows "quiet P (retryGetPositions_loop d retries delayMs attempt l)"
proof (rule quietI)
  fix s r s'
  have fn: "quiet P (getPositionsFromPool d)"
    using Q by (simp add: getPositionsFromPool_def quiet_invoke)
  show "retryGetPositions_loop d retries delayMs attempt l s = (r, s') \<Longrightarrow>
      cached s' = cached s \<and> (\<exists>evs. trace s' = trace s @ evs \<and> list_all P evs)"
  proof (induction n \<equiv> "retries - attempt" arbitrary: attempt l s)
    case 0
    then have "\<not> attempt < retries" by simp
    with 0(2) have "s' = s" by (subst (asm) retryGetPositions_loop.simps) simp
    then show ?case by simp
  next
    case (Suc n)
    then have lt: "attempt < retries" by arith
    obtain r1 s1 where f: "getPositionsFromPool d s = (r1, s1)"
      by (cases "getPositionsFromPool d s")
    from quietD[OF fn f] obtain evs1 where
      one: "cached s1 = cached s" "trace s1 = trace s @ evs1" "list_all P evs1" by blast
    let ?s2 = "if attempt < retries - 1 then sleep delayMs s1 else s1"
    from quiet_wait[of P delayMs "attempt < retries - 1" s1, OF P] obtain evs2 where
      two: "cached ?s2 = cached s1" "trace ?s2 = trace s1 @ evs2" "list_all P evs2" by blast
    from Suc.hyps(2) have n: "n = retries - (attempt + 1)" by arith
    let ?G = "cached s' = cached s \<and> (\<exists>evs. trace s' = trace s @ evs \<and> list_all P evs)"
    have rec: "\<And>l'. retryGetPositions_loop d retries delayMs (attempt + 1) l' ?s2 = (r, s') \<Longrightarrow>
        ?G"
    proof -
      fix l' assume run: "retryGetPositions_loop d retries delayMs (attempt + 1) l' ?s2 = (r, s')"
      from Suc.hyps(1)[OF n run] obtain evs3 where
        three: "cached s' = cached ?s2" "trace s' = trace ?s2 @ evs3" "list_all P evs3" by blast
      from one two three have "cached s' = cached s"
        "trace s' = trace s @ (evs1 @ evs2 @ evs3)" "list_all P (evs1 @ evs2 @ evs3)"
        by simp_all
      then show ?G by blast
    qed
    show ?case
    proof (cases r1)
      case (Inr positions)
      show ?thesis
      proof (cases "length positions > 0")
        case True
        with Suc.prems lt f Inr have "s' = s1"
          by (subst (asm) retryGetPositions_loop.simps) simp
        with one show ?thesis by blast
      next
        case False
        with Suc.prems lt f Inr
        have "retryGetPositions_loop d retries delayMs (attempt + 1) positions ?s2 = (r, s')"
          by (subst (asm) retryGetPositions_loop.simps) simp
        then show ?thesis by (rule rec)
      qed
    next
      case (Inl e)
      show ?thesis
      proof (cases "insufficientFunds e")
        case True
        with Suc.prems lt f Inl have "s' = s1"
          by (subst (asm) retryGetPositions_loop.simps) simp
        with one show ?thesis by blast
      next
        case False
        with Suc.prems lt f Inl
        have "retryGetPositions_loop d retries delayMs (attempt + 1) l ?s2 = (r, s')"
          by (subst (asm) retryGetPositions_loop.simps) simp
        then show ?thesis by (rule rec)
      qed
    qed
  qed
qed

lemma quiet_retryGetPositions:
  "P (Slept delayMs) \<Longrightarrow> P (Invoked (GetPositionsFromPool (poolAddress d))) \<Longrightarrow>
   quiet P (retryGetPositions d retries delayMs)"
  by (simp add: retryGetPositions_def quiet_retryGetPositions_loop)

lemma quiet_getUsableBalances:
  "(\<And>m. P (Invoked (GetBalance m))) \<Longrightarrow> quiet P (getUsableBalances d)"
  unfolding getUsableBalances_def Let_def
  by (intro quiet_bnd quiet_poolDetails quiet_invoke quiet_ret)

lemma quiet_getActiveBin: "P (Invoked (GetActiveBin (poolAddress d))) \<Longrightarrow> quiet P (getActiveBin d)"
  by (simp add: getActiveBin_def quiet_invoke)

lemma quiet_verifyFees:
  "P (Invoked (GetBalance None)) \<Longrightarrow> (\<And>m. P (Alerted WARNING m)) \<Longrightarrow>
   quiet P (verifyNativeTokenBalanceForFees d)"
  unfolding verifyNativeTokenBalanceForFees_def
  by (intro quiet_bnd quiet_invoke) (auto intro: quiet_sendAlert quiet_ret)

lemma quiet_verifyBuffer:
  "P (Invoked (GetBalance None)) \<Longrightarrow> (\<And>m. P (Alerted ERROR m)) \<Longrightarrow>
   quiet P (verifyNativeTokenBufferForPositions d)"
  unfolding verifyNativeTokenBufferForPositions_def
  by (intro quiet_bnd quiet_invoke) (auto intro: quiet_sendAlert quiet_ret quiet_seq quiet_throw)

lemma quiet_rebalancePosition_swap:
  assumes b: "\<And>e. benign e \<Longrightarrow> P e"
    and a: "jgt A (jdiv (jdiv (jadd (jmul A price) B) (Fin 2)) price) \<Longrightarrow>
      P (Invoked (Swap (assetAMintAddress pd) (assetBMintAddress pd)
           (jsub A (jdiv (jdiv (jadd (jmul A price) B) (Fin 2)) price))))"
    and c: "\<not> jgt A (jdiv (jdiv (jadd (jmul A price) B) (Fin 2)) price) \<Longrightarrow>
      jgt B (jdiv (jadd (jmul A price) B) (Fin 2)) \<Longrightarrow>
      P (Invoked (Swap (assetBMintAddress pd) (assetAMintAddress pd)
           (jsub B (jdiv (jadd (jmul A price) B) (Fin 2)))))"
  shows "quiet P (rebalancePosition_swap d pd A B price)"
proof -
  have log: "\<And>r. P (Logged r)" and slp: "\<And>n. P (Slept n)"
    by (auto intro!: b simp: benign_def)
  show ?thesis
    unfolding rebalancePosition_swap_def Let_def swap_def
    using a c
    by (auto intro!: quiet_bnd quiet_retry quiet_invoke quiet_balanceLogger quiet_ret log slp)
qed

lemma try_catch_rethrow: "try_catch m (\<lambda>error. throw error) = m"
  by (rule ext) (auto simp: try_catch_def throw_def split: prod.splits sum.splits)

lemma benign_simps [simp]:
  "benign (Logged r)" "benign (Slept n)" "benign (Alerted t m)"
  "benign (Invoked (GetBalance mint))" "benign (Invoked (GetActiveBin a))"
  "benign (Invoked (GetPositionsFromPool a))" "benign (Invoked (Fetch a))"
  "\<not> benign (Invoked (Swap x y z))" "\<not> benign (Invoked (AddLiquidity a u v w))"
  "\<not> benign (Invoked (RemoveLiquidity a))"
  by (simp_all add: benign_def)

lemma quiet_rebalancePosition:
  assumes b: "\<And>e. benign e \<Longrightarrow> P e" and sw: "\<And>x y z. P (Invoked (Swap x y z))"
  shows "quiet P (rebalancePosition d)"
  unfolding rebalancePosition_def try_catch_rethrow
  by (auto intro!: quiet_bnd quiet_seq quiet_getUsableBalances quiet_poolDetails quiet_throw
        quiet_retry quiet_getActiveBin quiet_rebalancePosition_swap quiet_balanceLogger
        quiet_sleep b sw split: option.splits)

lemma quiet_removeLiquidity:
  assumes b: "\<And>e. benign e \<Longrightarrow> P e" and rm: "\<And>a. P (Invoked (RemoveLiquidity a))"
  shows "quiet P (removeLiquidity d)"
  unfolding removeLiquidity_def
  by (auto intro!: quiet_bnd quiet_seq quiet_getUsableBalances quiet_poolDetails
        quiet_retry quiet_invoke quiet_balanceLogger quiet_sleep b rm split: prod.splits)

lemma quiet_addLiquidity_deposit:
  assumes b: "\<And>e. benign e \<Longrightarrow> P e" and ad: "\<And>a u v w. P (Invoked (AddLiquidity a u v w))"
  shows "quiet P (addLiquidity_deposit d)"
  unfolding addLiquidity_deposit_def Let_def
  by (auto intro!: quiet_bnd quiet_seq quiet_getUsableBalances quiet_poolDetails quiet_read_field
        quiet_retry quiet_invoke quiet_balanceLogger b ad)

subsection \<open>The decision of \<open>rebalance\<close>\<close>







subsection \<open>Running the methods on the simulated ledger\<close>

lemmas sim_defs = simulator_def sim_getPositionsFromPool_def sim_getBalance_def
  sim_getActiveBin_def sim_swap_def sim_addLiquidity_def sim_removeLiquidity_def sim_fetch_def
  holding_def credit_def NATIVE_MINT_def default_NATIVE_TOKEN_FEE_BUFFER_def
  default_NATIVE_TOKEN_MIN_BALANCE_def SOL_USDC_def JUP_USDC_def bins_per_side_def

lemmas io_defs = ret_def throw_def bnd_def seq_def try_catch_def modify_def record_event_def
  emit_def invoke_def sleep_def sendAlert_def balanceLogger_def read_field_def poolDetails_def

lemmas method_defs = getUsableBalances_def amount_of_def retry_def retry_loop.simps
  getPositionsFromPool_def retryGetPositions_def retryGetPositions_loop.simps getActiveBin_def
  swap_def rebalancePosition_swap_def rebalancePosition_def
  verifyNativeTokenBufferForPositions_def verifyNativeTokenBalanceForFees_def
  addLiquidity_deposit_def addLiquidity_collect_def addLiquidity_def adopt_def
  removeLiquidity_def toLowerCase_def lower_char_def Math_max_def Math_min_def jsub_def jgt_def
  METERORA_MAX_BINS_PER_SIDE_def TOTAL_BALANCE_PREFIX_def getPoolDetails_def
  loadInitialState_resolve_def loadInitialState_positions_def loadInitialState_def
  rebalance_catch_def signed_inf_def Let_def char_of_def



subsection \<open>Failures inside a cycle\<close>



subsection \<open>The cached range after a relocation\<close>

lemma bnd_returns:
  "bnd m f s = (Inr y, s') \<Longrightarrow> \<exists>x s1. m s = (Inr x, s1) \<and> f x s1 = (Inr y, s')"
  by (auto simp: bnd_def split: prod.splits sum.splits)

lemma seq_returns:
  "seq m n s = (Inr y, s') \<Longrightarrow> \<exists>x s1. m s = (Inr x, s1) \<and> n s1 = (Inr y, s')"
  by (auto simp: seq_def dest: bnd_returns)

lemma rebalance_catch_not_True: "rebalance_catch d e s \<noteq> (Inr True, s')"
  by (auto simp: rebalance_catch_def seq_def bnd_def ret_def sendAlert_def emit_def modify_def
        split: prod.splits sum.splits if_splits)

lemma any_event: "quiet (\<lambda>_. True) m \<Longrightarrow> m s = (r, s') \<Longrightarrow> cached s' = cached s"
  by (auto dest: quietD)

text \<open>
  C7, as amended. When \<open>rebalance\<close> returns \<open>True\<close>, its last step was the position query
  (10 attempts, 10 seconds apart) made after the deposit, on an object whose cached fields
  were still those of the start. If the query returned a non-empty list, the cached bounds are
  overwritten with the bounds of its first position; if it returned the empty list, the cached
  bounds are left as they were.
\<close>

theorem relocation_readback:
  assumes "rebalance d s = (Inr True, s')"
  shows "\<exists>s1 s2 s3 positions.
           addLiquidity_deposit d s1 = (Inr (), s2) \<and>
           retryGetPositions d 10 10000 s2 = (Inr positions, s3) \<and>
           cached s3 = cached s \<and>
           s' = (case positions of [] \<Rightarrow> s3 | position # _ \<Rightarrow> adopt position s3)"
proof -
  from assms have tried: "rebalance_try d s = (Inr True, s')"
    by (auto simp: rebalance_def try_catch_def rebalance_catch_not_True
          split: prod.splits sum.splits)
  then have addr: "poolAddress d \<noteq> []"
    by (auto simp: rebalance_try_def throw_def split: if_splits)
  with tried obtain activeBin sa where
    read: "retry (getActiveBin d) 5 5000 s = (Inr activeBin, sa)" and
    rest: "(case activeBin of
             None \<Rightarrow> throw (Error ''Cannot read properties of undefined (reading binId)'')
           | Some bin \<Rightarrow>
               bnd (read_field currLowerBinId) (\<lambda>lower.
               bnd (read_field currUpperBinId) (\<lambda>upper.
               if binId bin < lower \<or> binId bin > upper then
                 seq (balanceLogger (LogAction (DetectedOutOfRange (binId bin) lower upper)))
                (seq (removeLiquidity d)
                (seq (rebalancePosition d)
                (seq (verifyNativeTokenBufferForPositions d)
                (seq (addLiquidity d)
                     (ret True)))))
               else ret False))) sa = (Inr True, s')"
    by (auto simp: rebalance_try_def dest!: bnd_returns)
  from rest obtain bin where bin: "activeBin = Some bin"
    by (cases activeBin) (auto simp: throw_def)
  let ?log = "LogAction (DetectedOutOfRange (binId bin) (currLowerBinId sa) (currUpperBinId sa))"
  from rest bin have chain:
    "seq (balanceLogger ?log)
       (seq (removeLiquidity d) (seq (rebalancePosition d)
         (seq (verifyNativeTokenBufferForPositions d) (seq (addLiquidity d) (ret True))))) sa =
     (Inr True, s')"
    by (auto simp: read_field_def bnd_def ret_def split: if_splits)
  from seq_returns[OF chain] obtain sb where
    l: "balanceLogger ?log sa = (Inr (), sb)" and
    c1: "seq (removeLiquidity d) (seq (rebalancePosition d)
         (seq (verifyNativeTokenBufferForPositions d) (seq (addLiquidity d) (ret True)))) sb =
       (Inr True, s')" by auto
  from seq_returns[OF c1] obtain sc where
    rm: "removeLiquidity d sb = (Inr (), sc)" and
    c2: "seq (rebalancePosition d)
         (seq (verifyNativeTokenBufferForPositions d) (seq (addLiquidity d) (ret True))) sc =
       (Inr True, s')" by auto
  from seq_returns[OF c2] obtain sd where
    rp: "rebalancePosition d sc = (Inr (), sd)" and
    c3: "seq (verifyNativeTokenBufferForPositions d) (seq (addLiquidity d) (ret True)) sd =
       (Inr True, s')" by auto
  from seq_returns[OF c3] obtain se where
    vf: "verifyNativeTokenBufferForPositions d sd = (Inr (), se)" and
    c4: "seq (addLiquidity d) (ret True) se = (Inr True, s')" by auto
  from seq_returns[OF c4] have add: "addLiquidity d se = (Inr (), s')"
    by (auto simp: ret_def)
  from seq_returns[OF add[unfolded addLiquidity_def]] obtain sf where
    vf2: "verifyNativeTokenBufferForPositions d se = (Inr (), sf)" and
    c5: "seq (addLiquidity_deposit d) (addLiquidity_collect d) sf = (Inr (), s')" by auto
  from seq_returns[OF c5] obtain sg where
    dep: "addLiquidity_deposit d sf = (Inr (), sg)" and
    col: "addLiquidity_collect d sg = (Inr (), s')" by auto
  from bnd_returns[OF col[unfolded addLiquidity_collect_def]] obtain positions sh where
    q: "retryGetPositions d 10 10000 sg = (Inr positions, sh)" and
    fin: "(case positions of [] \<Rightarrow> ret () | position # _ \<Rightarrow> modify (adopt position)) sh =
       (Inr (), s')" by auto
  from fin have s': "s' = (case positions of [] \<Rightarrow> sh | position # _ \<Rightarrow> adopt position sh)"
    by (cases positions) (auto simp: ret_def modify_def)
  have "cached sa = cached s"
    by (rule any_event[of "retry (getActiveBin d) 5 5000", OF _ read]) (intro quiet_retry quiet_getActiveBin TrueI)
  moreover have "cached sb = cached sa"
    by (rule any_event[of "balanceLogger ?log", OF _ l]) (intro quiet_balanceLogger TrueI)
  moreover have "cached sc = cached sb"
    by (rule any_event[of "removeLiquidity d", OF _ rm]) (intro quiet_removeLiquidity TrueI)
  moreover have "cached sd = cached sc"
    by (rule any_event[of "rebalancePosition d", OF _ rp]) (intro quiet_rebalancePosition TrueI)
  moreover have "cached se = cached sd"
    by (rule any_event[of "verifyNativeTokenBufferForPositions d", OF _ vf]) (intro quiet_verifyBuffer TrueI)
  moreover have "cached sf = cached se"
    by (rule any_event[of "verifyNativeTokenBufferForPositions d", OF _ vf2]) (intro quiet_verifyBuffer TrueI)
  moreover have "cached sg = cached sf"
    by (rule any_event[of "addLiquidity_deposit d", OF _ dep]) (intro quiet_addLiquidity_deposit TrueI)
  moreover have "cached sh = cached sg"
    by (rule any_event[of "retryGetPositions d 10 10000", OF _ q]) (intro quiet_retryGetPositions TrueI)
  ultimately have "cached sh = cached s" by simp
  with dep q s' show ?thesis by blast
qed

text \<open>On the simulated ledger the relocation at active bin 130 adopts the bins 110 to 150.\<close>

theorem relocation_readback_witness:
  "fst (rebalance (simulator (Fin (1 / 20))) (watching 130 0)) = Inr True
   \<and> currLowerBinId (snd (rebalance (simulator (Fin (1 / 20))) (watching 130 0))) = 110
   \<and> currUpperBinId (snd (rebalance (simulator (Fin (1 / 20))) (watching 130 0))) = 150
   \<and> (\<exists>s1 s2 s3 positions.
           addLiquidity_deposit (simulator (Fin (1 / 20))) s1 = (Inr (), s2) \<and>
           retryGetPositions (simulator (Fin (1 / 20))) 10 10000 s2 = (Inr positions, s3) \<and>
           cached s3 = cached (watching 130 0) \<and>
           snd (rebalance (simulator (Fin (1 / 20))) (watching 130 0)) =
             (case positions of [] \<Rightarrow> s3 | position # _ \<Rightarrow> adopt position s3))"
proof -
  have run: "fst (rebalance (simulator (Fin (1 / 20))) (watching 130 0)) = Inr True
     \<and> currLowerBinId (snd (rebalance (simulator (Fin (1 / 20))) (watching 130 0))) = 110
     \<and> currUpperBinId (snd (rebalance (simulator (Fin (1 / 20))) (watching 130 0))) = 150"
    by (simp add: sim_defs io_defs method_defs watching_def rebalance_def rebalance_try_def)
  then have "rebalance (simulator (Fin (1 / 20))) (watching 130 0) =
      (Inr True, snd (rebalance (simulator (Fin (1 / 20))) (watching 130 0)))"
    by (simp add: prod_eq_iff)
  from relocation_readback[OF this] run show ?thesis by blast
qed

text \<open>
  C7 as stated fails: when the indexer hides the new position for ten queries, the relocation
  returns \<open>True\<close> and the cached bounds are still 100 and 120, while the position on the
  ledger is on bins 110 to 150.
\<close>

theorem stale_range_counterexample:
  "fst (rebalance (simulator (Fin (1 / 20))) (watching 130 10)) = Inr True
   \<and> currLowerBinId (snd (rebalance (simulator (Fin (1 / 20))) (watching 130 10))) = 100
   \<and> currUpperBinId (snd (rebalance (simulator (Fin (1 / 20))) (watching 130 10))) = 120
   \<and> open_positions (world (snd (rebalance (simulator (Fin (1 / 20))) (watching 130 10)))) =
       [\<lparr>lowerBinId = 110, upperBinId = 150\<rparr>]"
  by (simp add: sim_defs io_defs method_defs watching_def rebalance_def rebalance_try_def)

subsection \<open>Usable balances\<close>




subsection \<open>The two checks of the fee reserve\<close>



subsection \<open>Startup: the range interval\<close>
















subsection \<open>Startup: creating or adopting a position\<close>




subsection \<open>The asset balancer\<close>















end
